theory Spec2Isabelle
  imports Main
begin

section \<open>Python values\<close>

text \<open>
  The handlers of \<^verbatim>\<open>examples/python/basic_oauth.py\<close> move dynamically typed values
  between the query string, the Flask session and the JSON body of the token response.
  \<open>pyval\<close> is the universe of those values: what \<^verbatim>\<open>json.loads\<close> can return, and
  what \<^verbatim>\<open>request.args.get\<close> and \<^verbatim>\<open>os.getenv\<close> return (\<open>PNone\<close> or a \<open>PStr\<close>).
  A float is a finite binary fraction (mantissa, exponent), an infinity or NaN; only its
  truth value is ever used. A \<open>PDict\<close> is an association list read by its first match.
\<close>

datatype pyfloat = Finite int int | Infinite bool | NaN

datatype pyval =
    PNone
  | PBool bool
  | PInt int
  | PFloat pyfloat
  | PStr string
  | PList "pyval list"
  | PDict "(string \<times> pyval) list"

text \<open>Python's truth value testing, as used by \<^verbatim>\<open>if x:\<close>, \<^verbatim>\<open>not x\<close> and \<^verbatim>\<open>x or y\<close>.\<close>

fun truthy :: "pyval \<Rightarrow> bool" where
  "truthy PNone = False"
| "truthy (PBool b) = b"
| "truthy (PInt i) = (i \<noteq> 0)"
| "truthy (PFloat (Finite m e)) = (m \<noteq> 0)"
| "truthy (PFloat (Infinite s)) = True"
| "truthy (PFloat NaN) = True"
| "truthy (PStr s) = (s \<noteq> [])"
| "truthy (PList xs) = (xs \<noteq> [])"
| "truthy (PDict kv) = (kv \<noteq> [])"

text \<open>
  Exceptions that can reach the \<^verbatim>\<open>except Exception\<close> clause of \<open>callback\<close>: the one the
  handler raises itself for a non-200 token response, the two the interpreter raises for
  a missing method or list index, and whatever \<^verbatim>\<open>requests\<close>, \<^verbatim>\<open>base64\<close>,
  \<^verbatim>\<open>bytes.decode\<close> and \<^verbatim>\<open>json\<close> raise (named by a message).
\<close>

datatype pyexn =
    TokenEndpointReturned int string
  | AttributeError
  | IndexError
  | LibraryError string

text \<open>\<^verbatim>\<open>d.get(k)\<close> on a dict, with the default \<^verbatim>\<open>None\<close>.\<close>

definition dict_get :: "(string \<times> pyval) list \<Rightarrow> string \<Rightarrow> pyval" where
  "dict_get kv k = (case map_of kv k of None \<Rightarrow> PNone | Some v \<Rightarrow> v)"

text \<open>\<^verbatim>\<open>x.get(k)\<close> on any value: only a dict has the method.\<close>

fun py_get :: "pyval \<Rightarrow> string \<Rightarrow> pyexn + pyval" where
  "py_get (PDict kv) k = Inr (dict_get kv k)"
| "py_get _ k = Inl AttributeError"

text \<open>\<^verbatim>\<open>s.split(sep)\<close> for a one-character separator: never empty, keeps empty fields.\<close>

fun split_on :: "char \<Rightarrow> string \<Rightarrow> string list" where
  "split_on sep [] = [[]]"
| "split_on sep (c # cs) =
     (if c = sep then [] # split_on sep cs
      else (case split_on sep cs of
              [] \<Rightarrow> [[c]]
            | w # ws \<Rightarrow> (c # w) # ws))"

text \<open>\<^verbatim>\<open>x.split('.')\<close> on any value: only a str has the method.\<close>

fun py_split_dot :: "pyval \<Rightarrow> pyexn + string list" where
  "py_split_dot (PStr s) = Inr (split_on CHR ''.'' s)"
| "py_split_dot _ = Inl AttributeError"

text \<open>\<^verbatim>\<open>xs[1]\<close>: raises IndexError on a list shorter than two.\<close>

fun index1 :: "'a list \<Rightarrow> pyexn + 'a" where
  "index1 (_ # x # _) = Inr x"
| "index1 _ = Inl IndexError"

section \<open>Session, request, configuration and the outside world\<close>

text \<open>
  The Flask session is a dict from field names to values; \<open>request.args\<close> is a
  multi-dict whose \<^verbatim>\<open>get\<close> returns the first value of a key, or \<^verbatim>\<open>None\<close>.
\<close>

type_synonym session = "string \<rightharpoonup> pyval"

type_synonym query = "(string \<times> string) list"

definition args_get :: "query \<Rightarrow> string \<Rightarrow> pyval" where
  "args_get args k = (case map_of args k of None \<Rightarrow> PNone | Some v \<Rightarrow> PStr v)"

text \<open>\<^verbatim>\<open>session.get(k)\<close> and \<^verbatim>\<open>session.pop(k, None)\<close>.\<close>

definition session_get :: "session \<Rightarrow> string \<Rightarrow> pyval" where
  "session_get sess k = (case sess k of None \<Rightarrow> PNone | Some v \<Rightarrow> v)"

definition session_pop :: "session \<Rightarrow> string \<Rightarrow> pyval \<times> session" where
  "session_pop sess k = (session_get sess k, sess(k := None))"

text \<open>
  \<^verbatim>\<open>OAUTH_CONFIG\<close>: every entry but \<open>scope\<close> is read with \<^verbatim>\<open>os.getenv\<close>, so it is
  a string or \<^verbatim>\<open>None\<close>.
\<close>

record oauth_config =
  client_id :: pyval
  client_secret :: pyval
  redirect_uri :: pyval
  authorization_url :: pyval
  token_url :: pyval
  scope :: string

text \<open>
  One call \<^verbatim>\<open>requests.post(url, data=..., headers=..., timeout=...)\<close>, and the response
  object it returns: \<open>status_code\<close>, \<open>.text\<close>, and the outcome of \<open>.json()\<close>.
\<close>

record post_request =
  url :: pyval
  data :: "(string \<times> pyval) list"
  headers :: "(string \<times> string) list"
  timeout :: nat

record http_response =
  status_code :: int
  response_text :: string
  json :: "pyexn + pyval"

text \<open>
  The library calls whose results the handler cannot determine are parameters: the token
  endpoint behind \<^verbatim>\<open>requests.post\<close>, and the decoders \<^verbatim>\<open>base64.urlsafe_b64decode\<close>,
  \<^verbatim>\<open>bytes.decode('utf-8')\<close> and \<^verbatim>\<open>json.loads\<close>. Each returns its value or the
  exception it raises.
\<close>

type_synonym bytes = "nat list"

record env =
  post :: "post_request \<Rightarrow> pyexn + http_response"
  urlsafe_b64decode :: "string \<Rightarrow> pyexn + bytes"
  decode_utf8 :: "bytes \<Rightarrow> pyexn + string"
  json_loads :: "string \<Rightarrow> pyexn + pyval"

text \<open>
  What a handler returns. The HTML pages are named by their template and the values
  interpolated into it; a dict body is the JSON Flask makes of it; \<^verbatim>\<open>redirect(u)\<close>
  is a 302 to \<open>u\<close>; a body returned without a status has status 200. The redirect of
  \<^verbatim>\<open>/login\<close> is named by the authorization URL and the parameters handed to
  \<^verbatim>\<open>urlencode\<close>.
\<close>

datatype body =
    AuthorizationRedirect pyval "(string \<times> pyval) list"
  | AuthorizationErrorPage pyval pyval
  | InvalidStatePage
  | NoCodeText
  | TokenExchangeFailedPage pyexn
  | RedirectTo string
  | JsonBody pyval

record http_reply =
  content :: body
  status :: int

definition redirect :: "string \<Rightarrow> http_reply" where
  "redirect location = \<lparr>content = RedirectTo location, status = 302\<rparr>"

text \<open>
  The result of running a handler: its reply, the session as the handler leaves it, and
  the outbound POSTs it made, in order.
\<close>

record outcome =
  reply :: http_reply
  session_after :: session
  calls :: "post_request list"

section \<open>The handlers\<close>

text \<open>
  The home page (line 29) only reads the session and no property below is about it; it
  is left out, and so is what the handlers print.
\<close>

subsection \<open>\<^verbatim>\<open>/login\<close>, \<^verbatim>\<open>/logout\<close> and \<^verbatim>\<open>/api/profile\<close>\<close>

text \<open>
  \<open>login\<close> takes the value \<^verbatim>\<open>generate_state()\<close> returns, a random URL-safe string, as
  its argument \<open>state\<close>.
\<close>

definition login :: "oauth_config \<Rightarrow> string \<Rightarrow> session \<Rightarrow> outcome" where
  "login cfg state sess =
     \<lparr>reply = \<lparr>content = AuthorizationRedirect (authorization_url cfg)
                        [(''client_id'', client_id cfg),
                         (''redirect_uri'', redirect_uri cfg),
                         (''response_type'', PStr ''code''),
                         (''scope'', PStr (scope cfg)),
                         (''state'', PStr state)],
               status = 302\<rparr>,
      session_after = sess(''oauth_state'' \<mapsto> PStr state),
      calls = []\<rparr>"


definition logout :: "session \<Rightarrow> outcome" where
  "logout sess = \<lparr>reply = redirect ''/'', session_after = Map.empty, calls = []\<rparr>"

definition profile :: "session \<Rightarrow> outcome" where
  "profile sess =
     (if ''access_token'' \<notin> dom sess
      then \<lparr>reply = \<lparr>content = JsonBody (PDict [(''error'', PStr ''Not authenticated'')]),
                      status = 401\<rparr>,
            session_after = sess, calls = []\<rparr>
      else \<lparr>reply = \<lparr>content = JsonBody (PDict
                        [(''message'', PStr ''This is a protected resource''),
                         (''user'', session_get sess ''user'')]),
                      status = 200\<rparr>,
            session_after = sess, calls = []\<rparr>)"

subsection \<open>\<^verbatim>\<open>/callback\<close>: the token exchange (the body of the \<^verbatim>\<open>try\<close>)\<close>

text \<open>Lines 101 to 119: the request handed to \<^verbatim>\<open>requests.post\<close>.\<close>

definition token_request :: "oauth_config \<Rightarrow> pyval \<Rightarrow> post_request" where
  "token_request cfg code =
     \<lparr>url = token_url cfg,
      data = [(''grant_type'', PStr ''authorization_code''),
              (''code'', code),
              (''redirect_uri'', redirect_uri cfg),
              (''client_id'', client_id cfg),
              (''client_secret'', client_secret cfg)],
      headers = [(''Content-Type'', ''application/x-www-form-urlencoded''),
                 (''Accept'', ''application/json'')],
      timeout = 10\<rparr>"

text \<open>
  Lines 114 to 127: the POST, the status check, \<open>.json()\<close> and the three \<open>.get\<close>s.
  Nothing is written to the session up to here.
\<close>

definition fetch_tokens :: "env \<Rightarrow> post_request \<Rightarrow> pyexn + (pyval \<times> pyval \<times> pyval)" where
  "fetch_tokens e req =
     (case post e req of
        Inl ex \<Rightarrow> Inl ex
      | Inr response \<Rightarrow>
          if status_code response \<noteq> 200
          then Inl (TokenEndpointReturned (status_code response) (response_text response))
          else (case json response of
                  Inl ex \<Rightarrow> Inl ex
                | Inr token_response \<Rightarrow>
                    (case py_get token_response ''access_token'' of
                       Inl ex \<Rightarrow> Inl ex
                     | Inr access_token \<Rightarrow>
                         (case py_get token_response ''refresh_token'' of
                            Inl ex \<Rightarrow> Inl ex
                          | Inr refresh_token \<Rightarrow>
                              (case py_get token_response ''id_token'' of
                                 Inl ex \<Rightarrow> Inl ex
                               | Inr id_token \<Rightarrow>
                                   Inr (access_token, refresh_token, id_token))))))"

text \<open>
  Lines 139 to 147: the claims dict made of a truthy \<open>id_token\<close>. The second dot-separated
  field, padded with \<^verbatim>\<open>==\<close>, goes through base64, UTF-8 and JSON decoding; the three
  claims are read with \<open>.get\<close>. No signature is checked.
\<close>

definition decode_id_token :: "env \<Rightarrow> pyval \<Rightarrow> pyexn + pyval" where
  "decode_id_token e id_token =
     (case py_split_dot id_token of
        Inl ex \<Rightarrow> Inl ex
      | Inr parts \<Rightarrow>
          (case index1 parts of
             Inl ex \<Rightarrow> Inl ex
           | Inr segment \<Rightarrow>
               (case urlsafe_b64decode e (segment @ ''=='') of
                  Inl ex \<Rightarrow> Inl ex
                | Inr raw \<Rightarrow>
                    (case decode_utf8 e raw of
                       Inl ex \<Rightarrow> Inl ex
                     | Inr txt \<Rightarrow>
                         (case json_loads e txt of
                            Inl ex \<Rightarrow> Inl ex
                          | Inr payload \<Rightarrow>
                              (case py_get payload ''email'' of
                                 Inl ex \<Rightarrow> Inl ex
                               | Inr email \<Rightarrow>
                                   (case py_get payload ''name'' of
                                      Inl ex \<Rightarrow> Inl ex
                                    | Inr name \<Rightarrow>
                                        (case py_get payload ''sub'' of
                                           Inl ex \<Rightarrow> Inl ex
                                         | Inr sub \<Rightarrow>
                                             Inr (PDict [(''email'', email),
                                                         (''name'', name),
                                                         (''sub'', sub)])))))))))"

text \<open>
  Lines 130 to 147: the session writes. The session is mutated in place, so the writes
  made before an exception stay: the session is returned on both branches.
\<close>

definition store_tokens :: "env \<Rightarrow> session \<Rightarrow> pyval \<times> pyval \<times> pyval \<Rightarrow> (pyexn + unit) \<times> session" where
  "store_tokens e sess toks =
     (case toks of (access_token, refresh_token, id_token) \<Rightarrow>
        let sess1 = sess(''access_token'' \<mapsto> access_token);
            sess2 = (if truthy refresh_token
                     then sess1(''refresh_token'' \<mapsto> refresh_token) else sess1)
        in if truthy id_token
           then (case decode_id_token e id_token of
                   Inl ex \<Rightarrow> (Inl ex, sess2)
                 | Inr user \<Rightarrow> (Inr (), sess2(''user'' \<mapsto> user)))
           else (Inr (), sess2))"

text \<open>Lines 99 to 166: the \<^verbatim>\<open>try\<close> with its handler, which catches every exception.\<close>

definition token_exchange :: "env \<Rightarrow> oauth_config \<Rightarrow> pyval \<Rightarrow> session \<Rightarrow> outcome" where
  "token_exchange e cfg code sess =
     (let req = token_request cfg code in
      case fetch_tokens e req of
        Inl ex \<Rightarrow>
          \<lparr>reply = \<lparr>content = TokenExchangeFailedPage ex, status = 500\<rparr>,
           session_after = sess, calls = [req]\<rparr>
      | Inr toks \<Rightarrow>
          (case store_tokens e sess toks of
             (Inl ex, sess') \<Rightarrow>
               \<lparr>reply = \<lparr>content = TokenExchangeFailedPage ex, status = 500\<rparr>,
                session_after = sess', calls = [req]\<rparr>
           | (Inr u, sess') \<Rightarrow>
               \<lparr>reply = redirect ''/'', session_after = sess', calls = [req]\<rparr>))"

subsection \<open>\<^verbatim>\<open>/callback\<close>\<close>

definition callback :: "env \<Rightarrow> oauth_config \<Rightarrow> query \<Rightarrow> session \<Rightarrow> outcome" where
  "callback e cfg args sess =
     (let code = args_get args ''code'';
          state = args_get args ''state'';
          error = args_get args ''error'';
          error_description = args_get args ''error_description''
      in if truthy error
         then \<lparr>reply = \<lparr>content = AuthorizationErrorPage error
                           (if truthy error_description then error_description
                            else PStr ''No description provided''),
                         status = 400\<rparr>,
               session_after = sess, calls = []\<rparr>
         else (case session_pop sess ''oauth_state'' of
                 (stored_state, sess') \<Rightarrow>
                   if \<not> truthy state \<or> state \<noteq> stored_state
                   then \<lparr>reply = \<lparr>content = InvalidStatePage, status = 403\<rparr>,
                         session_after = sess', calls = []\<rparr>
                   else if \<not> truthy code
                   then \<lparr>reply = \<lparr>content = NoCodeText, status = 400\<rparr>,
                         session_after = sess', calls = []\<rparr>
                   else token_exchange e cfg code sess'))"

text \<open>
  The guards of lines 78, 88 and 96, negated: the request carries no truthy \<open>error\<close>,
  its \<open>state\<close> is truthy and equal to the popped \<open>oauth_state\<close>, and its \<open>code\<close> is
  truthy. These are the requests on which the \<^verbatim>\<open>try\<close> block is entered.
\<close>

definition exchange_reached :: "query \<Rightarrow> session \<Rightarrow> bool" where
  "exchange_reached args sess \<longleftrightarrow>
     \<not> truthy (args_get args ''error'')
     \<and> truthy (args_get args ''state'')
     \<and> args_get args ''state'' = session_get sess ''oauth_state''
     \<and> truthy (args_get args ''code'')"

section \<open>Example configuration, sessions and environments\<close>

text \<open>
  Concrete inputs for the examples below: a configuration; a token endpoint that gives
  one fixed answer; decoders that know one payload, \<^verbatim>\<open>e30\<close>, the base64 of the JSON
  text \<^verbatim>\<open>{}\<close>, and raise on anything else; and the session \<^verbatim>\<open>/login\<close> leaves
  when it is visited with an empty session and draws the token \<open>tok\<close>.
\<close>

definition example_config :: oauth_config where
  "example_config =
     \<lparr>client_id = PStr ''demo-client'',
      client_secret = PStr ''demo-secret'',
      redirect_uri = PStr ''http://localhost:5000/callback'',
      authorization_url = PStr ''https://provider.example/authorize'',
      token_url = PStr ''https://provider.example/token'',
      scope = ''openid profile email''\<rparr>"

definition example_b64decode :: "string \<Rightarrow> pyexn + bytes" where
  "example_b64decode s =
     (if s = ''e30=='' then Inr [123, 125] else Inl (LibraryError ''binascii.Error''))"

definition example_decode_utf8 :: "bytes \<Rightarrow> pyexn + string" where
  "example_decode_utf8 raw =
     (if raw = [123, 125] then Inr ''{}'' else Inl (LibraryError ''UnicodeDecodeError''))"

definition example_json_loads :: "string \<Rightarrow> pyexn + pyval" where
  "example_json_loads txt =
     (if txt = ''{}'' then Inr (PDict []) else Inl (LibraryError ''JSONDecodeError''))"

definition example_env :: "(pyexn + http_response) \<Rightarrow> env" where
  "example_env answer =
     \<lparr>post = (\<lambda>req. answer),
      urlsafe_b64decode = example_b64decode,
      decode_utf8 = example_decode_utf8,
      json_loads = example_json_loads\<rparr>"

definition json_response :: "int \<Rightarrow> pyval \<Rightarrow> pyexn + http_response" where
  "json_response st v = Inr \<lparr>status_code = st, response_text = [], json = Inr v\<rparr>"

definition logged_in_with :: "string \<Rightarrow> session" where
  "logged_in_with tok = session_after (login example_config tok Map.empty)"

section \<open>Properties\<close>

subsection \<open>Which branch \<^verbatim>\<open>/callback\<close> takes\<close>

lemma callback_error:
  "truthy (args_get args ''error'') \<Longrightarrow>
   callback e cfg args sess =
     \<lparr>reply = \<lparr>content = AuthorizationErrorPage (args_get args ''error'')
                 (if truthy (args_get args ''error_description'')
                  then args_get args ''error_description''
                  else PStr ''No description provided''),
               status = 400\<rparr>,
      session_after = sess, calls = []\<rparr>"
  by (simp add: callback_def Let_def)

lemma callback_exchange:
  "exchange_reached args sess \<Longrightarrow>
   callback e cfg args sess =
     token_exchange e cfg (args_get args ''code'') (sess(''oauth_state'' := None))"
  by (auto simp add: callback_def exchange_reached_def session_pop_def Let_def)

lemma callback_no_exchange:
  "\<not> exchange_reached args sess \<Longrightarrow> calls (callback e cfg args sess) = []"
  by (auto simp add: callback_def exchange_reached_def session_pop_def Let_def)

lemma token_exchange_calls:
  "calls (token_exchange e cfg code sess) = [token_request cfg code]"
  by (simp add: token_exchange_def Let_def split: sum.splits prod.splits)

lemma calls_iff: "calls (callback e cfg args sess) \<noteq> [] \<longleftrightarrow> exchange_reached args sess"
  using callback_no_exchange[of args sess e cfg] callback_exchange[of args sess e cfg]
  by (auto simp add: token_exchange_calls)


subsection \<open>Reading the query string, and the writes of the token exchange\<close>

lemma args_get_missing: "map_of args k = None \<Longrightarrow> args_get args k = PNone"
  by (simp add: args_get_def)

lemma args_get_present: "map_of args k = Some v \<Longrightarrow> args_get args k = PStr v"
  by (simp add: args_get_def)

lemma callback_state_check:
  "\<not> truthy (args_get args ''error'') \<Longrightarrow>
   \<not> truthy (args_get args ''state'') \<or> args_get args ''state'' \<noteq> session_get sess ''oauth_state'' \<Longrightarrow>
   callback e cfg args sess =
     \<lparr>reply = \<lparr>content = InvalidStatePage, status = 403\<rparr>,
      session_after = sess(''oauth_state'' := None), calls = []\<rparr>"
  by (auto simp add: callback_def session_pop_def Let_def)

lemma store_tokens_frame:
  "k \<noteq> ''access_token'' \<Longrightarrow> k \<noteq> ''refresh_token'' \<Longrightarrow> k \<noteq> ''user'' \<Longrightarrow>
   snd (store_tokens e sess toks) k = sess k"
  by (cases toks) (simp add: store_tokens_def Let_def split: sum.splits)

lemma store_tokens_access_token:
  "snd (store_tokens e sess (a, r, i)) ''access_token'' = Some a"
  by (simp add: store_tokens_def Let_def split: sum.splits)

lemma store_tokens_refresh_token:
  "snd (store_tokens e sess (a, r, i)) ''refresh_token'' =
     (if truthy r then Some r else sess ''refresh_token'')"
  by (simp add: store_tokens_def Let_def split: sum.splits)

lemma store_tokens_user:
  "snd (store_tokens e sess (a, r, i)) ''user'' =
     (if truthy i
      then (case decode_id_token e i of Inl ex \<Rightarrow> sess ''user'' | Inr user \<Rightarrow> Some user)
      else sess ''user'')"
  by (simp add: store_tokens_def Let_def split: sum.splits)

lemma store_tokens_raises:
  "isl (fst (store_tokens e sess (a, r, i))) \<longleftrightarrow> truthy i \<and> isl (decode_id_token e i)"
  by (simp add: store_tokens_def Let_def split: sum.splits)

lemma token_exchange_session:
  "session_after (token_exchange e cfg code sess) =
     (case fetch_tokens e (token_request cfg code) of
        Inl ex \<Rightarrow> sess
      | Inr toks \<Rightarrow> snd (store_tokens e sess toks))"
  by (simp add: token_exchange_def Let_def split: sum.splits prod.splits)

lemma token_exchange_status:
  "status (reply (token_exchange e cfg code sess)) =
     (case fetch_tokens e (token_request cfg code) of
        Inl ex \<Rightarrow> 500
      | Inr toks \<Rightarrow> if isl (fst (store_tokens e sess toks)) then 500 else 302)"
  by (simp add: token_exchange_def Let_def redirect_def split: sum.splits prod.splits)

lemma token_exchange_frame:
  "k \<noteq> ''access_token'' \<Longrightarrow> k \<noteq> ''refresh_token'' \<Longrightarrow> k \<noteq> ''user'' \<Longrightarrow>
   session_after (token_exchange e cfg code sess) k = sess k"
  by (simp add: token_exchange_session store_tokens_frame split: sum.splits)

lemma fetch_tokens_ok:
  "post e req = Inr r \<Longrightarrow> status_code r = 200 \<Longrightarrow> json r = Inr (PDict kv) \<Longrightarrow>
   fetch_tokens e req =
     Inr (dict_get kv ''access_token'', dict_get kv ''refresh_token'', dict_get kv ''id_token'')"
  by (simp add: fetch_tokens_def)

lemma fetch_tokens_post_raises: "post e req = Inl ex \<Longrightarrow> fetch_tokens e req = Inl ex"
  by (simp add: fetch_tokens_def)

lemma fetch_tokens_bad_status:
  "post e req = Inr r \<Longrightarrow> status_code r \<noteq> 200 \<Longrightarrow>
   fetch_tokens e req = Inl (TokenEndpointReturned (status_code r) (response_text r))"
  by (simp add: fetch_tokens_def)

lemma fetch_tokens_bad_json:
  "post e req = Inr r \<Longrightarrow> json r = Inl ex \<Longrightarrow> isl (fetch_tokens e req)"
  by (simp add: fetch_tokens_def)

lemma fetch_tokens_not_dict:
  "post e req = Inr r \<Longrightarrow> json r = Inr v \<Longrightarrow> \<forall>kv. v \<noteq> PDict kv \<Longrightarrow> isl (fetch_tokens e req)"
  by (cases v) (simp_all add: fetch_tokens_def)

lemma callback_pops_state:
  "\<not> truthy (args_get args ''error'') \<Longrightarrow>
   session_after (callback e cfg args sess) ''oauth_state'' = None"
  by (simp add: callback_def session_pop_def Let_def token_exchange_frame)

subsection \<open>The example inputs\<close>



lemma example_reached:
  "exchange_reached [(''code'', ''abc''), (''state'', ''tok'')] (logged_in_with ''tok'')"
  by (simp add: exchange_reached_def args_get_def session_get_def logged_in_with_def login_def)

lemma example_post: "post (example_env answer) req = answer"
  by (simp add: example_env_def)

lemma example_decode_ok:
  "decode_id_token (example_env answer) (PStr ''h.e30.s'') =
     Inr (PDict [(''email'', PNone), (''name'', PNone), (''sub'', PNone)])"
  by (simp add: decode_id_token_def example_env_def example_b64decode_def
      example_decode_utf8_def example_json_loads_def dict_get_def)

lemma example_decode_fails:
  "decode_id_token (example_env answer) (PStr ''not-a-jwt'') = Inl IndexError"
  by (simp add: decode_id_token_def)

subsection \<open>The provider's error parameter\<close>

text \<open>
  C2. Every \<^verbatim>\<open>/callback\<close> request that carries a non-empty \<open>error\<close> parameter is
  answered with status 400, and the handler makes no outbound call on it: the list of
  POSTs is empty, whatever else the request and the session hold.
\<close>

theorem callback_error_param_400_no_post:
  assumes "map_of args ''error'' = Some err" and "err \<noteq> []"
  shows "status (reply (callback e cfg args sess)) = 400 \<and> calls (callback e cfg args sess) = []"
  using assms by (simp add: callback_error args_get_present)

text \<open>
  An instance: the request also carries the right \<open>state\<close> and a \<open>code\<close>, and the token
  endpoint would answer 200; the reply is still 400 and nothing is posted.
\<close>

theorem callback_error_param_400_no_post_witness:
  "status (reply (callback (example_env (json_response 200 (PDict []))) example_config
      [(''error'', ''access_denied''), (''state'', ''tok''), (''code'', ''abc'')]
      (logged_in_with ''tok''))) = 400
   \<and> calls (callback (example_env (json_response 200 (PDict []))) example_config
      [(''error'', ''access_denied''), (''state'', ''tok''), (''code'', ''abc'')]
      (logged_in_with ''tok'')) = []"
  by (rule callback_error_param_400_no_post [where err = "''access_denied''"]) simp_all

text \<open>
  C9. When \<^verbatim>\<open>/callback\<close> answers 400 because the request carries a non-empty \<open>error\<close>
  parameter, the session it leaves is the session it found; in particular
  \<open>oauth_state\<close> still holds what it held.
\<close>

theorem callback_error_param_keeps_session:
  assumes "map_of args ''error'' = Some err" and "err \<noteq> []"
  shows "status (reply (callback e cfg args sess)) = 400
         \<and> session_after (callback e cfg args sess) = sess
         \<and> session_after (callback e cfg args sess) ''oauth_state'' = sess ''oauth_state''"
  using assms by (simp add: callback_error args_get_present)

text \<open>An instance: the token stored by a login survives the rejected callback.\<close>

theorem callback_error_param_keeps_session_witness:
  "status (reply (callback (example_env (json_response 200 (PDict []))) example_config
      [(''error'', ''access_denied''), (''state'', ''tok'')] (logged_in_with ''tok''))) = 400
   \<and> session_after (callback (example_env (json_response 200 (PDict []))) example_config
      [(''error'', ''access_denied''), (''state'', ''tok'')] (logged_in_with ''tok''))
     = logged_in_with ''tok''
   \<and> session_after (callback (example_env (json_response 200 (PDict []))) example_config
      [(''error'', ''access_denied''), (''state'', ''tok'')] (logged_in_with ''tok''))
        ''oauth_state'' = Some (PStr ''tok'')"
proof -
  have "logged_in_with ''tok'' ''oauth_state'' = Some (PStr ''tok'')"
    by (simp add: logged_in_with_def login_def)
  then show ?thesis
    using callback_error_param_keeps_session [where err = "''access_denied''"
      and args = "[(''error'', ''access_denied''), (''state'', ''tok'')]"
      and sess = "logged_in_with ''tok''"
      and e = "example_env (json_response 200 (PDict []))" and cfg = example_config]
    by simp
qed

subsection \<open>The state check\<close>

text \<open>
  C1, as amended. Every \<^verbatim>\<open>/callback\<close> request that carries no non-empty \<open>error\<close>
  parameter, and whose \<open>state\<close> parameter is missing or differs from the token stored
  in the session under \<open>oauth_state\<close> (no stored token differs from every state), is
  answered with status 403.
\<close>

theorem callback_bad_state_403:
  assumes "\<not> truthy (args_get args ''error'')"
    and "case map_of args ''state'' of
           None \<Rightarrow> True
         | Some s \<Rightarrow> sess ''oauth_state'' \<noteq> Some (PStr s)"
  shows "status (reply (callback e cfg args sess)) = 403"
proof -
  have "\<not> truthy (args_get args ''state'')
        \<or> args_get args ''state'' \<noteq> session_get sess ''oauth_state''"
    using assms(2) by (auto simp add: args_get_def session_get_def split: option.splits)
  with assms(1) show ?thesis
    by (simp add: callback_state_check)
qed

text \<open>Two instances: a forged state, and no state at all.\<close>

theorem callback_bad_state_403_witness:
  "status (reply (callback (example_env (Inl (LibraryError ''ConnectionError''))) example_config
      [(''code'', ''abc''), (''state'', ''forged'')] (logged_in_with ''expected''))) = 403
   \<and> status (reply (callback (example_env (Inl (LibraryError ''ConnectionError''))) example_config
      [(''code'', ''abc'')] (logged_in_with ''expected''))) = 403"
proof -
  let ?e = "example_env (Inl (LibraryError ''ConnectionError''))"
  have "status (reply (callback ?e example_config
          [(''code'', ''abc''), (''state'', ''forged'')] (logged_in_with ''expected''))) = 403"
    by (rule callback_bad_state_403) (simp_all add: args_get_def logged_in_with_def login_def)
  moreover have "status (reply (callback ?e example_config
          [(''code'', ''abc'')] (logged_in_with ''expected''))) = 403"
    by (rule callback_bad_state_403) (simp_all add: args_get_def logged_in_with_def login_def)
  ultimately show ?thesis by simp
qed

text \<open>
  C1 as first stated, for every request with a missing or differing state, fails: the
  \<open>error\<close> parameter is tested first (line 78), so a request with a forged state and
  an \<open>error\<close> parameter is answered with 400, not 403.
\<close>

theorem callback_error_precedes_state_check:
  "logged_in_with ''expected'' ''oauth_state'' = Some (PStr ''expected'')
   \<and> map_of [(''state'', ''forged''), (''error'', ''access_denied'')] ''state'' = Some ''forged''
   \<and> status (reply (callback (example_env (Inl (LibraryError ''ConnectionError''))) example_config
        [(''state'', ''forged''), (''error'', ''access_denied'')] (logged_in_with ''expected'')))
       = 400
   \<and> status (reply (callback (example_env (Inl (LibraryError ''ConnectionError''))) example_config
        [(''state'', ''forged''), (''error'', ''access_denied'')] (logged_in_with ''expected'')))
       \<noteq> 403"
  by (simp add: callback_def args_get_def Let_def logged_in_with_def login_def)

text \<open>
  C3, as amended. The stored token is single-use. Every \<^verbatim>\<open>/callback\<close> invocation
  that reaches the state check (it carries no non-empty \<open>error\<close> parameter) leaves a
  session without \<open>oauth_state\<close>, whether the comparison succeeds or not and however the
  token exchange ends; so a second invocation on that session that presents the same
  state value and also reaches the state check is answered with status 403. And no
  invocation at all on that session, whatever it presents, gets as far as the token
  exchange.
\<close>

theorem state_token_single_use:
  assumes "\<not> truthy (args_get args ''error'')"
  shows "''oauth_state'' \<notin> dom (session_after (callback e cfg args sess))
         \<and> (\<forall>e' cfg' args'.
               \<not> truthy (args_get args' ''error'') \<and> map_of args' ''state'' = map_of args ''state''
               \<longrightarrow> status (reply (callback e' cfg' args'
                      (session_after (callback e cfg args sess)))) = 403)
         \<and> (\<forall>e' cfg' args'.
               calls (callback e' cfg' args' (session_after (callback e cfg args sess))) = [])"
proof -
  let ?sess' = "session_after (callback e cfg args sess)"
  have gone: "?sess' ''oauth_state'' = None"
    using assms by (rule callback_pops_state)
  have "status (reply (callback e' cfg' args' ?sess')) = 403"
    if "\<not> truthy (args_get args' ''error'')" for e' cfg' args'
  proof -
    have "\<not> truthy (args_get args' ''state'')
          \<or> args_get args' ''state'' \<noteq> session_get ?sess' ''oauth_state''"
      using gone by (cases "args_get args' ''state''") (simp_all add: session_get_def)
    with that show ?thesis by (simp add: callback_state_check)
  qed
  moreover have "calls (callback e' cfg' args' ?sess') = []" for e' cfg' args'
  proof -
    have "\<not> exchange_reached args' ?sess'"
      using gone by (cases "args_get args' ''state''")
        (simp_all add: exchange_reached_def session_get_def)
    then show ?thesis by (rule callback_no_exchange)
  qed
  ultimately show ?thesis using gone by (simp add: domIff)
qed

text \<open>
  An instance: a callback with the right state succeeds; the same request replayed on
  the session it leaves is answered with 403.
\<close>

theorem state_token_single_use_witness:
  "''oauth_state'' \<notin> dom (session_after (callback
       (example_env (json_response 200 (PDict [(''access_token'', PStr ''at'')]))) example_config
       [(''code'', ''abc''), (''state'', ''tok'')] (logged_in_with ''tok'')))
   \<and> status (reply (callback
       (example_env (json_response 200 (PDict [(''access_token'', PStr ''at'')]))) example_config
       [(''code'', ''abc''), (''state'', ''tok'')]
       (session_after (callback
          (example_env (json_response 200 (PDict [(''access_token'', PStr ''at'')]))) example_config
          [(''code'', ''abc''), (''state'', ''tok'')] (logged_in_with ''tok''))))) = 403"
proof -
  let ?e = "example_env (json_response 200 (PDict [(''access_token'', PStr ''at'')]))"
  let ?args = "[(''code'', ''abc''), (''state'', ''tok'')]"
  have first: "\<not> truthy (args_get ?args ''error'')"
    by (simp add: args_get_def)
  note single = state_token_single_use [OF first, of ?e example_config "logged_in_with ''tok''"]
  from single have gone: "''oauth_state'' \<notin> dom (session_after
      (callback ?e example_config ?args (logged_in_with ''tok'')))"
    by (rule conjunct1)
  from single have "\<not> truthy (args_get ?args ''error'')
      \<and> map_of ?args ''state'' = map_of ?args ''state''
      \<longrightarrow> status (reply (callback ?e example_config ?args
            (session_after (callback ?e example_config ?args (logged_in_with ''tok''))))) = 403"
    by blast
  with first gone show ?thesis
    by simp
qed

text \<open>
  C3 as first stated, for every second \<^verbatim>\<open>/callback\<close> presenting the same state
  value, fails: after a successful callback, a second request with the same \<open>state\<close> and
  an \<open>error\<close> parameter is stopped by the test of line 78 and answered with 400, not 403.
\<close>

theorem replay_with_error_param_400:
  "\<not> truthy (args_get [(''code'', ''abc''), (''state'', ''tok'')] ''error'')
   \<and> map_of [(''state'', ''tok''), (''error'', ''access_denied'')] ''state''
       = map_of [(''code'', ''abc''), (''state'', ''tok'')] ''state''
   \<and> status (reply (callback
        (example_env (json_response 200 (PDict [(''access_token'', PStr ''at'')]))) example_config
        [(''state'', ''tok''), (''error'', ''access_denied'')]
        (session_after (callback
           (example_env (json_response 200 (PDict [(''access_token'', PStr ''at'')])))
           example_config [(''code'', ''abc''), (''state'', ''tok'')] (logged_in_with ''tok'')))))
       = 400
   \<and> status (reply (callback
        (example_env (json_response 200 (PDict [(''access_token'', PStr ''at'')]))) example_config
        [(''state'', ''tok''), (''error'', ''access_denied'')]
        (session_after (callback
           (example_env (json_response 200 (PDict [(''access_token'', PStr ''at'')])))
           example_config [(''code'', ''abc''), (''state'', ''tok'')] (logged_in_with ''tok'')))))
       \<noteq> 403"
proof -
  have "truthy (args_get [(''state'', ''tok''), (''error'', ''access_denied'')] ''error'')"
    by (simp add: args_get_def)
  then show ?thesis
    by (simp add: callback_error) (simp add: args_get_def)
qed

subsection \<open>\<^verbatim>\<open>/api/profile\<close>\<close>




subsection \<open>The token exchange\<close>

text \<open>
  C5. Whenever \<^verbatim>\<open>/callback\<close> makes an outbound call, it is one POST to the configured
  token endpoint, with the form-encoding content type, whose \<open>data\<close> dict has exactly
  the keys \<open>grant_type\<close> (the string \<open>authorization_code\<close>), \<open>code\<close> (from the query),
  \<open>redirect_uri\<close>, \<open>client_id\<close> and \<open>client_secret\<close> (from the configuration). And
  when the answer is a 200 whose JSON body is an object, the handler reads \<open>access_token\<close>,
  \<open>refresh_token\<close> and \<open>id_token\<close> from it: the first is stored as it is, the second
  when truthy, and the third, when truthy and decodable, gives the stored user claims.
  (The dict is encoded by \<^verbatim>\<open>requests\<close>, which is outside the handler.)
\<close>

theorem token_exchange_wire_format:
  assumes "calls (callback e cfg args sess) \<noteq> []"
  shows "calls (callback e cfg args sess) =
           [\<lparr>url = token_url cfg,
             data = [(''grant_type'', PStr ''authorization_code''),
                     (''code'', args_get args ''code''),
                     (''redirect_uri'', redirect_uri cfg),
                     (''client_id'', client_id cfg),
                     (''client_secret'', client_secret cfg)],
             headers = [(''Content-Type'', ''application/x-www-form-urlencoded''),
                        (''Accept'', ''application/json'')],
             timeout = 10\<rparr>]
         \<and> (\<forall>r kv. post e (token_request cfg (args_get args ''code'')) = Inr r
                   \<and> status_code r = 200 \<and> json r = Inr (PDict kv)
              \<longrightarrow> session_after (callback e cfg args sess) ''access_token''
                    = Some (dict_get kv ''access_token'')
                \<and> session_after (callback e cfg args sess) ''refresh_token''
                    = (if truthy (dict_get kv ''refresh_token'')
                       then Some (dict_get kv ''refresh_token'') else sess ''refresh_token'')
                \<and> session_after (callback e cfg args sess) ''user''
                    = (if truthy (dict_get kv ''id_token'')
                       then (case decode_id_token e (dict_get kv ''id_token'') of
                               Inl ex \<Rightarrow> sess ''user''
                             | Inr user \<Rightarrow> Some user)
                       else sess ''user''))"
proof -
  from assms have reached: "exchange_reached args sess"
    by (simp add: calls_iff)
  then have cb: "callback e cfg args sess =
      token_exchange e cfg (args_get args ''code'') (sess(''oauth_state'' := None))"
    by (rule callback_exchange)
  have sent: "calls (callback e cfg args sess) = [token_request cfg (args_get args ''code'')]"
    by (simp add: cb token_exchange_calls)
  have read: "session_after (callback e cfg args sess) =
      snd (store_tokens e (sess(''oauth_state'' := None))
        (dict_get kv ''access_token'', dict_get kv ''refresh_token'', dict_get kv ''id_token''))"
    if "post e (token_request cfg (args_get args ''code'')) = Inr r"
      and "status_code r = 200" and "json r = Inr (PDict kv)" for r kv
    using that by (simp add: cb token_exchange_session fetch_tokens_ok)
  show ?thesis
    using sent read
    by (simp add: token_request_def store_tokens_access_token store_tokens_refresh_token
        store_tokens_user split: sum.splits)
qed

text \<open>
  An instance: the request sent with the example configuration, and what is kept of an
  answer that also carries a field the handler never looks at.
\<close>

theorem token_exchange_wire_format_witness:
  "calls (callback
      (example_env (json_response 200 (PDict [(''access_token'', PStr ''at''),
         (''refresh_token'', PStr ''rt''), (''id_token'', PStr ''h.e30.s''),
         (''expires_in'', PInt 3600)])))
      example_config [(''code'', ''abc''), (''state'', ''tok'')] (logged_in_with ''tok''))
     = [\<lparr>url = PStr ''https://provider.example/token'',
         data = [(''grant_type'', PStr ''authorization_code''),
                 (''code'', PStr ''abc''),
                 (''redirect_uri'', PStr ''http://localhost:5000/callback''),
                 (''client_id'', PStr ''demo-client''),
                 (''client_secret'', PStr ''demo-secret'')],
         headers = [(''Content-Type'', ''application/x-www-form-urlencoded''),
                    (''Accept'', ''application/json'')],
         timeout = 10\<rparr>]
   \<and> session_after (callback
      (example_env (json_response 200 (PDict [(''access_token'', PStr ''at''),
         (''refresh_token'', PStr ''rt''), (''id_token'', PStr ''h.e30.s''),
         (''expires_in'', PInt 3600)])))
      example_config [(''code'', ''abc''), (''state'', ''tok'')] (logged_in_with ''tok''))
        ''access_token'' = Some (PStr ''at'')
   \<and> session_after (callback
      (example_env (json_response 200 (PDict [(''access_token'', PStr ''at''),
         (''refresh_token'', PStr ''rt''), (''id_token'', PStr ''h.e30.s''),
         (''expires_in'', PInt 3600)])))
      example_config [(''code'', ''abc''), (''state'', ''tok'')] (logged_in_with ''tok''))
        ''refresh_token'' = Some (PStr ''rt'')
   \<and> session_after (callback
      (example_env (json_response 200 (PDict [(''access_token'', PStr ''at''),
         (''refresh_token'', PStr ''rt''), (''id_token'', PStr ''h.e30.s''),
         (''expires_in'', PInt 3600)])))
      example_config [(''code'', ''abc''), (''state'', ''tok'')] (logged_in_with ''tok''))
        ''user'' = Some (PDict [(''email'', PNone), (''name'', PNone), (''sub'', PNone)])"
proof -
  let ?kv = "[(''access_token'', PStr ''at''), (''refresh_token'', PStr ''rt''),
              (''id_token'', PStr ''h.e30.s''), (''expires_in'', PInt 3600)]"
  let ?r = "\<lparr>status_code = 200, response_text = [], json = Inr (PDict ?kv)\<rparr>"
  let ?e = "example_env (json_response 200 (PDict ?kv))"
  let ?args = "[(''code'', ''abc''), (''state'', ''tok'')]"
  let ?out = "callback ?e example_config ?args (logged_in_with ''tok'')"
  have made: "calls ?out \<noteq> []"
    using example_reached by (simp add: calls_iff)
  note wire = token_exchange_wire_format [OF made]
  have answer: "post ?e (token_request example_config (args_get ?args ''code'')) = Inr ?r
      \<and> status_code ?r = 200 \<and> json ?r = Inr (PDict ?kv)"
    by (simp add: example_post json_response_def)
  from wire have sent: "calls ?out =
      [\<lparr>url = token_url example_config,
        data = [(''grant_type'', PStr ''authorization_code''),
                (''code'', args_get ?args ''code''),
                (''redirect_uri'', redirect_uri example_config),
                (''client_id'', client_id example_config),
                (''client_secret'', client_secret example_config)],
        headers = [(''Content-Type'', ''application/x-www-form-urlencoded''),
                   (''Accept'', ''application/json'')],
        timeout = 10\<rparr>]"
    by (rule conjunct1)
  from wire answer have read:
    "session_after ?out ''access_token'' = Some (dict_get ?kv ''access_token'')
     \<and> session_after ?out ''refresh_token''
          = (if truthy (dict_get ?kv ''refresh_token'')
             then Some (dict_get ?kv ''refresh_token'')
             else logged_in_with ''tok'' ''refresh_token'')
     \<and> session_after ?out ''user''
          = (if truthy (dict_get ?kv ''id_token'')
             then (case decode_id_token ?e (dict_get ?kv ''id_token'') of
                     Inl ex \<Rightarrow> logged_in_with ''tok'' ''user''
                   | Inr user \<Rightarrow> Some user)
             else logged_in_with ''tok'' ''user'')"
    by blast
  have fields: "dict_get ?kv ''access_token'' = PStr ''at''"
    "dict_get ?kv ''refresh_token'' = PStr ''rt''"
    "dict_get ?kv ''id_token'' = PStr ''h.e30.s''"
    by (simp_all add: dict_get_def)
  from sent read show ?thesis
    by (simp add: fields example_decode_ok example_config_def args_get_def)
qed

text \<open>Two token responses that agree on the three fields are not told apart.\<close>

lemma token_response_other_fields_ignored:
  assumes "post e req = Inr r" and "status_code r = 200" and "json r = Inr (PDict kv)"
    and "post e' req = Inr r'" and "status_code r' = 200" and "json r' = Inr (PDict kv')"
    and "dict_get kv ''access_token'' = dict_get kv' ''access_token''"
    and "dict_get kv ''refresh_token'' = dict_get kv' ''refresh_token''"
    and "dict_get kv ''id_token'' = dict_get kv' ''id_token''"
  shows "fetch_tokens e req = fetch_tokens e' req"
  using assms by (simp add: fetch_tokens_ok)

text \<open>
  C6. On every \<^verbatim>\<open>/callback\<close> request that reaches the token exchange and on which
  the exchange fails, the reply has status 500 and exactly one POST was made: nothing is
  retried. The exchange fails when the POST itself raises, when the token endpoint
  answers with a status other than 200, when the body cannot be parsed as JSON (or is
  JSON but not an object), or when a truthy \<open>id_token\<close> cannot be decoded into a
  claims object.
\<close>

theorem token_exchange_failure_500:
  assumes "exchange_reached args sess"
    and "(\<exists>ex. post e (token_request cfg (args_get args ''code'')) = Inl ex)
       \<or> (\<exists>r. post e (token_request cfg (args_get args ''code'')) = Inr r
             \<and> status_code r \<noteq> 200)
       \<or> (\<exists>r ex. post e (token_request cfg (args_get args ''code'')) = Inr r
             \<and> json r = Inl ex)
       \<or> (\<exists>r v. post e (token_request cfg (args_get args ''code'')) = Inr r
             \<and> json r = Inr v \<and> (\<forall>kv. v \<noteq> PDict kv))
       \<or> (\<exists>r kv ex. post e (token_request cfg (args_get args ''code'')) = Inr r
             \<and> json r = Inr (PDict kv) \<and> truthy (dict_get kv ''id_token'')
             \<and> decode_id_token e (dict_get kv ''id_token'') = Inl ex)"
  shows "status (reply (callback e cfg args sess)) = 500
         \<and> calls (callback e cfg args sess) = [token_request cfg (args_get args ''code'')]"
proof -
  let ?req = "token_request cfg (args_get args ''code'')"
  let ?sess = "sess(''oauth_state'' := None)"
  from assms(1) have cb: "callback e cfg args sess =
      token_exchange e cfg (args_get args ''code'') ?sess"
    by (rule callback_exchange)
  have "(case fetch_tokens e ?req of
           Inl ex \<Rightarrow> True
         | Inr toks \<Rightarrow> isl (fst (store_tokens e ?sess toks)))"
    using assms(2)
  proof (elim disjE exE conjE)
    fix ex assume "post e ?req = Inl ex"
    then show ?thesis by (simp add: fetch_tokens_post_raises)
  next
    fix r assume "post e ?req = Inr r" "status_code r \<noteq> 200"
    then show ?thesis by (simp add: fetch_tokens_bad_status)
  next
    fix r ex assume "post e ?req = Inr r" "json r = Inl ex"
    then have "isl (fetch_tokens e ?req)" by (rule fetch_tokens_bad_json)
    then show ?thesis by (cases "fetch_tokens e ?req") simp_all
  next
    fix r v assume "post e ?req = Inr r" "json r = Inr v" "\<forall>kv. v \<noteq> PDict kv"
    then have "isl (fetch_tokens e ?req)" by (rule fetch_tokens_not_dict)
    then show ?thesis by (cases "fetch_tokens e ?req") simp_all
  next
    fix r kv ex
    assume r: "post e ?req = Inr r" "json r = Inr (PDict kv)"
      and idt: "truthy (dict_get kv ''id_token'')"
        "decode_id_token e (dict_get kv ''id_token'') = Inl ex"
    show ?thesis
    proof (cases "status_code r = 200")
      case True
      with r idt show ?thesis
        by (simp add: fetch_tokens_ok store_tokens_raises)
    next
      case False
      with r show ?thesis by (simp add: fetch_tokens_bad_status)
    qed
  qed
  then have "status (reply (token_exchange e cfg (args_get args ''code'') ?sess)) = 500"
    by (cases "fetch_tokens e ?req") (simp_all add: token_exchange_status)
  then show ?thesis
    by (simp add: cb token_exchange_calls)
qed

text \<open>An instance: the token endpoint rejects the code with a 400.\<close>

theorem token_exchange_failure_500_witness:
  "status (reply (callback
      (example_env (json_response 400 (PDict [(''error'', PStr ''invalid_grant'')])))
      example_config [(''code'', ''abc''), (''state'', ''tok'')] (logged_in_with ''tok''))) = 500
   \<and> calls (callback
      (example_env (json_response 400 (PDict [(''error'', PStr ''invalid_grant'')])))
      example_config [(''code'', ''abc''), (''state'', ''tok'')] (logged_in_with ''tok''))
     = [token_request example_config (PStr ''abc'')]"
proof -
  let ?e = "example_env (json_response 400 (PDict [(''error'', PStr ''invalid_grant'')]))"
  let ?args = "[(''code'', ''abc''), (''state'', ''tok'')]"
  have "\<exists>r. post ?e (token_request example_config (args_get ?args ''code'')) = Inr r
      \<and> status_code r \<noteq> 200"
    by (simp add: example_post json_response_def)
  then have "status (reply (callback ?e example_config ?args (logged_in_with ''tok''))) = 500
      \<and> calls (callback ?e example_config ?args (logged_in_with ''tok''))
        = [token_request example_config (args_get ?args ''code'')]"
    by (intro token_exchange_failure_500 example_reached disjI2 disjI1)
  then show ?thesis
    by (simp add: args_get_def)
qed

text \<open>
  C8. If the exchange is reached and the token endpoint answers 200 with a JSON object
  that has no \<open>access_token\<close> field, the handler still stores the key \<open>access_token\<close>,
  with the value \<^verbatim>\<open>None\<close>; \<open>profile\<close> tests the key only, so on the session the
  callback leaves it answers 200, not 401.
\<close>

theorem missing_access_token_still_authenticates:
  assumes "exchange_reached args sess"
    and "post e (token_request cfg (args_get args ''code'')) = Inr r"
    and "status_code r = 200"
    and "json r = Inr (PDict kv)"
    and "map_of kv ''access_token'' = None"
  shows "session_after (callback e cfg args sess) ''access_token'' = Some PNone
         \<and> status (reply (profile (session_after (callback e cfg args sess)))) = 200"
proof -
  from assms(1) have cb: "callback e cfg args sess =
      token_exchange e cfg (args_get args ''code'') (sess(''oauth_state'' := None))"
    by (rule callback_exchange)
  from assms(5) have "dict_get kv ''access_token'' = PNone"
    by (simp add: dict_get_def)
  with assms(2-4) have "session_after (callback e cfg args sess) ''access_token'' = Some PNone"
    by (simp add: cb token_exchange_session fetch_tokens_ok store_tokens_access_token)
  then show ?thesis
    by (simp add: profile_def domIff)
qed

text \<open>An instance: a token response with a \<open>token_type\<close> and nothing else.\<close>

theorem missing_access_token_still_authenticates_witness:
  "session_after (callback
      (example_env (json_response 200 (PDict [(''token_type'', PStr ''Bearer'')])))
      example_config [(''code'', ''abc''), (''state'', ''tok'')] (logged_in_with ''tok''))
        ''access_token'' = Some PNone
   \<and> status (reply (profile (session_after (callback
      (example_env (json_response 200 (PDict [(''token_type'', PStr ''Bearer'')])))
      example_config [(''code'', ''abc''), (''state'', ''tok'')] (logged_in_with ''tok''))))) = 200"
  by (rule missing_access_token_still_authenticates
      [where r = "\<lparr>status_code = 200, response_text = [],
                    json = Inr (PDict [(''token_type'', PStr ''Bearer'')])\<rparr>"
        and kv = "[(''token_type'', PStr ''Bearer'')]"])
    (simp_all add: example_reached example_post json_response_def)

text \<open>
  C10. The 500 reply is not atomic with respect to the session. If the exchange is
  reached and the token endpoint answers 200 with a JSON object in which \<open>access_token\<close>
  is present and \<open>id_token\<close> is truthy but cannot be decoded, the reply is 500 and the
  session already holds the access token (and the refresh token, when it is truthy).
\<close>

theorem failed_exchange_keeps_written_tokens:
  assumes "exchange_reached args sess"
    and "post e (token_request cfg (args_get args ''code'')) = Inr r"
    and "status_code r = 200"
    and "json r = Inr (PDict kv)"
    and "map_of kv ''access_token'' = Some tok"
    and "truthy (dict_get kv ''id_token'')"
    and "decode_id_token e (dict_get kv ''id_token'') = Inl ex"
  shows "status (reply (callback e cfg args sess)) = 500
         \<and> session_after (callback e cfg args sess) ''access_token'' = Some tok
         \<and> (truthy (dict_get kv ''refresh_token'') \<longrightarrow>
              session_after (callback e cfg args sess) ''refresh_token''
                = Some (dict_get kv ''refresh_token''))"
proof -
  from assms(1) have cb: "callback e cfg args sess =
      token_exchange e cfg (args_get args ''code'') (sess(''oauth_state'' := None))"
    by (rule callback_exchange)
  from assms(5) have tok: "dict_get kv ''access_token'' = tok"
    by (simp add: dict_get_def)
  from assms(2-4) have fetched: "fetch_tokens e (token_request cfg (args_get args ''code'')) =
      Inr (dict_get kv ''access_token'', dict_get kv ''refresh_token'', dict_get kv ''id_token'')"
    by (rule fetch_tokens_ok)
  have "status (reply (callback e cfg args sess)) = 500"
    using assms(6,7) by (simp add: cb token_exchange_status fetched store_tokens_raises)
  moreover have "session_after (callback e cfg args sess) ''access_token'' = Some tok"
    by (simp add: cb token_exchange_session fetched store_tokens_access_token tok)
  moreover have "session_after (callback e cfg args sess) ''refresh_token''
      = Some (dict_get kv ''refresh_token'')" if "truthy (dict_get kv ''refresh_token'')"
    using that by (simp add: cb token_exchange_session fetched store_tokens_refresh_token)
  ultimately show ?thesis by simp
qed

text \<open>
  An instance: the \<open>id_token\<close> has no dot, so indexing its second field raises; the
  session had no access token before the callback and has one after the 500.
\<close>

theorem failed_exchange_keeps_written_tokens_witness:
  "logged_in_with ''tok'' ''access_token'' = None
   \<and> status (reply (callback
      (example_env (json_response 200 (PDict [(''access_token'', PStr ''at''),
         (''refresh_token'', PStr ''rt''), (''id_token'', PStr ''not-a-jwt'')])))
      example_config [(''code'', ''abc''), (''state'', ''tok'')] (logged_in_with ''tok''))) = 500
   \<and> session_after (callback
      (example_env (json_response 200 (PDict [(''access_token'', PStr ''at''),
         (''refresh_token'', PStr ''rt''), (''id_token'', PStr ''not-a-jwt'')])))
      example_config [(''code'', ''abc''), (''state'', ''tok'')] (logged_in_with ''tok''))
        ''access_token'' = Some (PStr ''at'')
   \<and> session_after (callback
      (example_env (json_response 200 (PDict [(''access_token'', PStr ''at''),
         (''refresh_token'', PStr ''rt''), (''id_token'', PStr ''not-a-jwt'')])))
      example_config [(''code'', ''abc''), (''state'', ''tok'')] (logged_in_with ''tok''))
        ''refresh_token'' = Some (PStr ''rt'')"
proof -
  let ?kv = "[(''access_token'', PStr ''at''), (''refresh_token'', PStr ''rt''),
              (''id_token'', PStr ''not-a-jwt'')]"
  let ?r = "\<lparr>status_code = 200, response_text = [], json = Inr (PDict ?kv)\<rparr>"
  let ?e = "example_env (json_response 200 (PDict ?kv))"
  let ?args = "[(''code'', ''abc''), (''state'', ''tok'')]"
  have fields: "dict_get ?kv ''refresh_token'' = PStr ''rt''"
    "dict_get ?kv ''id_token'' = PStr ''not-a-jwt''"
    by (simp_all add: dict_get_def)
  have "status (reply (callback ?e example_config ?args (logged_in_with ''tok''))) = 500
     \<and> session_after (callback ?e example_config ?args (logged_in_with ''tok''))
          ''access_token'' = Some (PStr ''at'')
     \<and> (truthy (dict_get ?kv ''refresh_token'') \<longrightarrow>
          session_after (callback ?e example_config ?args (logged_in_with ''tok''))
            ''refresh_token'' = Some (dict_get ?kv ''refresh_token''))"
    by (rule failed_exchange_keeps_written_tokens [where r = ?r and ex = IndexError])
      (simp_all add: example_reached example_post json_response_def fields
        example_decode_fails)
  then show ?thesis
    by (simp add: fields logged_in_with_def login_def)
qed

subsection \<open>\<^verbatim>\<open>/logout\<close>\<close>

text \<open>
  C7. For every session, whatever it holds, \<open>logout\<close> leaves a session with no field at
  all (so none of \<open>oauth_state\<close>, \<open>access_token\<close>, \<open>refresh_token\<close>, \<open>user\<close>) and
  replies with a redirect to \<open>/\<close>.
\<close>

theorem logout_clears_session:
  "dom (session_after (logout sess)) = {}
   \<and> session_after (logout sess) ''oauth_state'' = None
   \<and> session_after (logout sess) ''access_token'' = None
   \<and> session_after (logout sess) ''refresh_token'' = None
   \<and> session_after (logout sess) ''user'' = None
   \<and> reply (logout sess) = \<lparr>content = RedirectTo ''/'', status = 302\<rparr>"
  by (simp add: logout_def redirect_def)

end
